theory Spec2Isabelle
  imports Main "HOL-Library.Sublist" "HOL-Library.AList" "HOL-Library.Char_ord"
    "HOL-Library.List_Lexorder"
begin

section \<open>configmaker: a shallow embedding of \<^verbatim>\<open>configmaker.py\<close>\<close>

text \<open>
  Python strings are modelled as \<open>string\<close> (a list of characters), exceptions as values
  of the datatype \<open>error\<close>, and a function that may raise as a function into
  \<open>error + 'a\<close> (\<open>Inl\<close> is the raised exception).
\<close>

datatype error =
    ArgumentTypeError string
  | ValueError string
  | RuntimeError string
  | NameError string
  | IndexError
  | KeyError string
  | FileNotFoundError string
  | FileExistsError string
  | UnboundLocalError string
  | AttributeError string
  | TypeError string

subsection \<open>String operations of the Python library\<close>

text \<open>\<^verbatim>\<open>sep.join(xs)\<close>\<close>

fun join :: "string \<Rightarrow> string list \<Rightarrow> string" where
  "join sep [] = []"
| "join sep [x] = x"
| "join sep (x # y # ys) = x @ sep @ join sep (y # ys)"

text \<open>\<^verbatim>\<open>s.split(c)\<close> for a separator \<open>c\<close> of one character: never an empty list.\<close>

fun split :: "char \<Rightarrow> string \<Rightarrow> string list" where
  "split c [] = [[]]"
| "split c (x # xs) =
     (if x = c then [] # split c xs
      else (case split c xs of
              [] \<Rightarrow> [[x]]
            | w # ws \<Rightarrow> (x # w) # ws))"

text \<open>\<^verbatim>\<open>s.startswith(p)\<close>\<close>

definition startswith :: "string \<Rightarrow> string \<Rightarrow> bool" where
  "startswith s p = (take (length p) s = p)"

text \<open>
  The characters \<^verbatim>\<open>str.strip\<close> and \<^verbatim>\<open>str.rstrip\<close> remove when called without
  an argument: those for which \<^verbatim>\<open>str.isspace\<close> holds (code points 9 to 13, 28 to 32,
  133 and 160 among the first 256).
\<close>

definition isspace :: "char \<Rightarrow> bool" where
  "isspace c = (let n = (of_char c :: nat) in
     (9 \<le> n \<and> n \<le> 13) \<or> (28 \<le> n \<and> n \<le> 32) \<or> n = 133 \<or> n = 160)"

definition lstrip :: "string \<Rightarrow> string" where
  "lstrip s = dropWhile isspace s"

definition rstrip :: "string \<Rightarrow> string" where
  "rstrip s = rev (dropWhile isspace (rev s))"

definition strip :: "string \<Rightarrow> string" where
  "strip s = rstrip (lstrip s)"

text \<open>\<^verbatim>\<open>str.lower\<close>, on the letters A to Z.\<close>

definition lower_char :: "char \<Rightarrow> char" where
  "lower_char c = (let n = (of_char c :: nat) in
     if 65 \<le> n \<and> n \<le> 90 then char_of (n + 32) else c)"

definition lower :: "string \<Rightarrow> string" where
  "lower s = map lower_char s"

subsection \<open>The regular expression of project identifiers\<close>

text \<open>
  The only regular expression of the program is \<^verbatim>\<open>'GCF-\d{4}-\d{3}'\<close>: a sequence of
  literal characters and digit classes. \<open>re_match\<close> is \<^verbatim>\<open>re.match\<close> on such a
  pattern: it matches at the start of the string, not the whole string, and returns
  the matched text (\<^verbatim>\<open>m.group()\<close>) or \<open>None\<close>.
\<close>

datatype patt_item = Lit char | Digit

definition isdigit :: "char \<Rightarrow> bool" where
  "isdigit c = (let n = (of_char c :: nat) in 48 \<le> n \<and> n \<le> 57)"

fun item_matches :: "patt_item \<Rightarrow> char \<Rightarrow> bool" where
  "item_matches (Lit a) c = (a = c)"
| "item_matches Digit c = isdigit c"

fun re_match :: "patt_item list \<Rightarrow> string \<Rightarrow> string option" where
  "re_match [] s = Some []"
| "re_match (p # ps) [] = None"
| "re_match (p # ps) (c # cs) =
     (if item_matches p c
      then (case re_match ps cs of None \<Rightarrow> None | Some m \<Rightarrow> Some (c # m))
      else None)"

definition gcf_patt :: "patt_item list" where
  "gcf_patt = map Lit ''GCF-'' @ replicate 4 Digit @ [Lit CHR ''-''] @ replicate 3 Digit"

text \<open>
  What the pattern denotes as a format: the strings that are wholly of the form
  \<^verbatim>\<open>GCF-YYYY-NNN\<close>.
\<close>

definition fullmatch :: "patt_item list \<Rightarrow> string \<Rightarrow> bool" where
  "fullmatch ps s = (re_match ps s = Some s)"

subsection \<open>Validation of \<^verbatim>\<open>--project-id\<close>\<close>

text \<open>
  \<^verbatim>\<open>is_valid_gcf_id(arg, patt)\<close> returns \<^verbatim>\<open>True\<close> for \<^verbatim>\<open>None\<close>, the stripped
  match when \<^verbatim>\<open>re.match\<close> succeeds, and raises \<^verbatim>\<open>argparse.ArgumentTypeError\<close>
  otherwise.
\<close>

datatype gcf_id_result = RTrue | RId string

definition invalid_gcf_msg :: "string \<Rightarrow> string" where
  "invalid_gcf_msg arg = arg @ '' is not a valid GCF number (format: GCF-YYYY-NNN)''"

definition is_valid_gcf_id :: "string option \<Rightarrow> patt_item list \<Rightarrow> error + gcf_id_result" where
  "is_valid_gcf_id arg patt =
     (case arg of
        None \<Rightarrow> Inr RTrue
      | Some a \<Rightarrow>
          (case re_match patt a of
             Some m \<Rightarrow> Inr (RId (strip m))
           | None \<Rightarrow> Inl (ArgumentTypeError (invalid_gcf_msg a))))"

subsection \<open>Paths\<close>

text \<open>\<^verbatim>\<open>os.path.join\<close>, \<^verbatim>\<open>os.path.basename\<close> and \<^verbatim>\<open>os.path.dirname\<close> of \<^verbatim>\<open>posixpath\<close>.\<close>

definition endswith_slash :: "string \<Rightarrow> bool" where
  "endswith_slash p = (p \<noteq> [] \<and> last p = CHR ''/'')"

definition path_join2 :: "string \<Rightarrow> string \<Rightarrow> string" where
  "path_join2 a b =
     (if startswith b ''/'' then b
      else if a = [] \<or> endswith_slash a then a @ b
      else a @ ''/'' @ b)"

definition path_join :: "string \<Rightarrow> string list \<Rightarrow> string" where
  "path_join a ps = foldl path_join2 a ps"

text \<open>\<open>rsplit_slash p\<close> is \<^verbatim>\<open>(p[:i], p[i:])\<close> for \<^verbatim>\<open>i = p.rfind('/') + 1\<close>.\<close>

definition rsplit_slash :: "string \<Rightarrow> string \<times> string" where
  "rsplit_slash p =
     (let t = rev (takeWhile (\<lambda>c. c \<noteq> CHR ''/'') (rev p))
      in (take (length p - length t) p, t))"

definition basename :: "string \<Rightarrow> string" where
  "basename p = snd (rsplit_slash p)"

definition dirname :: "string \<Rightarrow> string" where
  "dirname p =
     (let h = fst (rsplit_slash p)
      in if h \<noteq> [] \<and> h \<noteq> replicate (length h) CHR ''/''
         then rev (dropWhile (\<lambda>c. c = CHR ''/'') (rev h))
         else h)"

subsection \<open>Tables\<close>

text \<open>
  A pandas data frame is modelled by its column names and its rows, a row being the
  list of its (column, cell) pairs. A cell is a text, a number or missing (NaN).
\<close>

datatype cell = Txt string | Num int | NaN

type_synonym row = "(string \<times> cell) list"

record frame =
  columns :: "string list"
  rows :: "row list"

subsection \<open>Values of the configuration\<close>

text \<open>
  The values the program stores in its dictionaries: a string, \<^verbatim>\<open>True\<close>, a list of
  integers (the read geometry) and the samples, a dictionary from sample identifiers to
  rows. A dictionary is an association list in insertion order; \<open>AList.update\<close> is
  the assignment \<^verbatim>\<open>d[k] = v\<close>, which keeps the place of a key already present.
\<close>

type_synonym samples = "(string \<times> row) list"

datatype pyval = PStr string | PTrue | PInts "int list" | PSamples samples

type_synonym pydict = "(string \<times> pyval) list"

subsection \<open>The files and collaborators of the program\<close>

text \<open>
  The file system and the libraries the program calls (\<^verbatim>\<open>os\<close>, \<^verbatim>\<open>glob\<close>,
  \<^verbatim>\<open>pandas.read_csv\<close>, \<^verbatim>\<open>pandas.read_excel\<close>, \<^verbatim>\<open>json.load\<close>,
  \<^verbatim>\<open>yaml.dump\<close>) are a parameter of the model, a record of functions:
  \<^item> \<open>listdir\<close>, \<open>isdir\<close>, \<open>path_exists\<close>, \<open>lexists\<close>: the directory tree
    (\<open>lexists\<close> also holds of a dangling symbolic link);
  \<^item> \<open>glob\<close>: \<^verbatim>\<open>glob.glob(pattern, recursive=flag)\<close>;
  \<^item> \<open>relpath\<close>: \<^verbatim>\<open>os.path.relpath(path, start)\<close>;
  \<^item> \<open>file_lines\<close>: the lines of a text file, each with its line end, as
    \<^verbatim>\<open>readline\<close> returns them; \<open>None\<close> when there is no such file;
  \<^item> \<open>read_csv\<close>: the table \<^verbatim>\<open>pandas.read_csv\<close> reads from the remaining lines;
  \<^item> \<open>stats_json\<close>: for a \<^verbatim>\<open>Stats.json\<close>, the list \<^verbatim>\<open>ReadInfosForLanes\<close>, each
    lane being its \<^verbatim>\<open>ReadInfos\<close> as pairs (\<^verbatim>\<open>IsIndexedRead\<close>, \<^verbatim>\<open>NumCycles\<close>);
  \<^item> \<open>read_excel\<close>: the table of a sheet of a workbook (name, sheet, rows skipped);
  \<^item> \<open>yaml_dump\<close>: the lines \<^verbatim>\<open>yaml.dump\<close> writes for a configuration;
  \<^item> \<open>set_order\<close>: the order in which Python iterates over a set of strings, as
    a rearrangement of its sorted elements (the language leaves the order open);
  \<^item> \<open>symlinks\<close> and \<open>stdout\<close>: the links created, as (source, destination), and
    the lines written to the standard output.

  The program changes the file system in three places (opening the output file, creating
  the directory of FASTQ links, writing the configuration), so the record is also the
  state that \<open>main\<close> passes along. Those changes update \<open>file_lines\<close>, \<open>isdir\<close>,
  \<open>path_exists\<close>, \<open>lexists\<close> and \<open>symlinks\<close>; \<open>listdir\<close> and \<open>glob\<close> answer
  for the tree as it was when the program started.
\<close>

record world =
  listdir :: "string \<Rightarrow> string list"
  isdir :: "string \<Rightarrow> bool"
  path_exists :: "string \<Rightarrow> bool"
  lexists :: "string \<Rightarrow> bool"
  glob :: "bool \<Rightarrow> string \<Rightarrow> string list"
  relpath :: "string \<Rightarrow> string \<Rightarrow> string"
  file_lines :: "string \<Rightarrow> string list option"
  read_csv :: "string list \<Rightarrow> error + frame"
  stats_json :: "string \<Rightarrow> (bool \<times> int) list list option"
  read_excel :: "string \<Rightarrow> nat \<Rightarrow> nat \<Rightarrow> error + frame"
  yaml_dump :: "pydict \<Rightarrow> string list"
  set_order :: "string list \<Rightarrow> string list"
  symlinks :: "(string \<times> string) list"
  stdout :: "string list"

text \<open>\<^verbatim>\<open>list(s)\<close> for the set \<open>s\<close> of the elements of \<open>xs\<close>.\<close>

definition list_of_set :: "world \<Rightarrow> string list \<Rightarrow> string list" where
  "list_of_set w xs = set_order w (sort (remdups xs))"

subsection \<open>Input Resolver\<close>

definition err_not_present :: "string \<Rightarrow> string \<Rightarrow> error" where
  "err_not_present project_id pth =
     ValueError (project_id @ '' is not present in run_folder: '' @ pth)"

definition err_many_folders :: error where
  "err_many_folders = ValueError
     ''runfolders contain more than one project folders. Use `--project-id` option to choose one.''"

definition err_no_project :: "string \<Rightarrow> error" where
  "err_no_project pth =
     ValueError (''failed to identify any valid projects in runfolder: '' @ pth)"

definition err_many_ids :: error where
  "err_many_ids = ValueError
     ''runfolders contain more than one GCF project ID. Use `--project-id` option to choose one.''"

text \<open>The loop of the branch with a project identifier: the first entry that is it.\<close>

fun match_given :: "world \<Rightarrow> string \<Rightarrow> string \<Rightarrow> string list \<Rightarrow> error + (string \<times> string)" where
  "match_given w pth project_id [] = Inl (err_not_present project_id pth)"
| "match_given w pth project_id (fn # fns) =
     (if isdir w (path_join pth [fn]) \<and> fn = project_id
      then Inr (path_join pth [fn], project_id)
      else match_given w pth project_id fns)"

text \<open>
  The loop of the branch without one. The state is the pair
  (\<^verbatim>\<open>project_dir\<close>, \<^verbatim>\<open>project_id\<close>); a second matching directory raises.
\<close>

fun match_any :: "world \<Rightarrow> string \<Rightarrow> string option \<times> string option \<Rightarrow> string list
    \<Rightarrow> error + (string option \<times> string option)" where
  "match_any w pth st [] = Inr st"
| "match_any w pth (project_dir, project_id) (fn # fns) =
     (if isdir w (path_join pth [fn]) \<and> re_match gcf_patt fn \<noteq> None
      then (if project_dir \<noteq> None then Inl err_many_folders
            else match_any w pth (Some (path_join pth [fn]), Some fn) fns)
      else match_any w pth (project_dir, project_id) fns)"

text \<open>A string option is true in a condition when it is neither \<^verbatim>\<open>None\<close> nor empty.\<close>

fun truthy :: "string option \<Rightarrow> bool" where
  "truthy None = False"
| "truthy (Some s) = (s \<noteq> [])"

definition match_project_dir :: "world \<Rightarrow> string \<Rightarrow> string option
    \<Rightarrow> error + (string \<times> string option)" where
  "match_project_dir w pth project_id =
     (if truthy project_id
      then (case match_given w pth (the project_id) (listdir w pth) of
              Inl e \<Rightarrow> Inl e
            | Inr (d, i) \<Rightarrow> Inr (d, Some i))
      else (case match_any w pth (None, project_id) (listdir w pth) of
              Inl e \<Rightarrow> Inl e
            | Inr (project_dir, pid) \<Rightarrow>
                (if truthy project_dir then Inr (the project_dir, pid)
                 else Inl (err_no_project pth))))"

text \<open>
  The loop of \<^verbatim>\<open>inspect_dirs\<close>: the project directories in order, and the
  identifiers collected (the set \<^verbatim>\<open>project_ids\<close> is the set of this list).
\<close>

fun inspect_loop :: "world \<Rightarrow> string option \<Rightarrow> string list
    \<Rightarrow> error + (string list \<times> string option list)" where
  "inspect_loop w project_id [] = Inr ([], [])"
| "inspect_loop w project_id (pth # pths) =
     (case match_project_dir w pth project_id of
        Inl e \<Rightarrow> Inl e
      | Inr (pdir, pid) \<Rightarrow>
          (case inspect_loop w project_id pths of
             Inl e \<Rightarrow> Inl e
           | Inr (dirs, ids) \<Rightarrow> Inr (pdir # dirs, pid # ids)))"

definition inspect_dirs :: "world \<Rightarrow> string list \<Rightarrow> string option
    \<Rightarrow> error + (string list \<times> string option)" where
  "inspect_dirs w runfolders project_id =
     (case inspect_loop w project_id runfolders of
        Inl e \<Rightarrow> Inl e
      | Inr (project_dirs, ids) \<Rightarrow>
          (case remdups ids of
             [] \<Rightarrow> Inr (project_dirs, project_id)
           | [i] \<Rightarrow> Inr (project_dirs, i)
           | _ \<Rightarrow> Inl err_many_ids))"




subsection \<open>Operations on tables\<close>

text \<open>The cell of a row in a column; a row without the column has a missing cell.\<close>

definition cell_of :: "row \<Rightarrow> string \<Rightarrow> cell" where
  "cell_of r c = (case map_of r c of Some v \<Rightarrow> v | None \<Rightarrow> NaN)"

text \<open>\<^verbatim>\<open>str(n)\<close> for an integer.\<close>

definition digit_char :: "nat \<Rightarrow> char" where
  "digit_char d = char_of (48 + d)"

function str_nat :: "nat \<Rightarrow> string" where
  "str_nat n = (if n < 10 then [digit_char n] else str_nat (n div 10) @ [digit_char (n mod 10)])"
  by pat_completeness auto
termination
  by (relation "measure id") auto

declare str_nat.simps [simp del]

definition str_int :: "int \<Rightarrow> string" where
  "str_int i = (if i < 0 then CHR ''-'' # str_nat (nat (- i)) else str_nat (nat i))"

text \<open>\<^verbatim>\<open>astype(str)\<close> on a cell.\<close>

fun astype_str :: "cell \<Rightarrow> string" where
  "astype_str (Txt s) = s"
| "astype_str (Num n) = str_int n"
| "astype_str NaN = ''nan''"

text \<open>\<^verbatim>\<open>df[c] = df[c].astype(str)\<close>, for a column \<open>c\<close> of the frame.\<close>

definition col_astype_str :: "string \<Rightarrow> frame \<Rightarrow> frame" where
  "col_astype_str c df =
     df\<lparr>rows := map (\<lambda>r. AList.update c (Txt (astype_str (cell_of r c))) r) (rows df)\<rparr>"

text \<open>\<^verbatim>\<open>df.rename(columns=m)\<close>\<close>

definition rename_col :: "(string \<times> string) list \<Rightarrow> string \<Rightarrow> string" where
  "rename_col m c = (case map_of m c of Some c' \<Rightarrow> c' | None \<Rightarrow> c)"

definition rename_columns :: "(string \<times> string) list \<Rightarrow> frame \<Rightarrow> frame" where
  "rename_columns m df =
     \<lparr>columns = map (rename_col m) (columns df),
      rows = map (map (\<lambda>(c, v). (rename_col m c, v))) (rows df)\<rparr>"

text \<open>\<^verbatim>\<open>df.drop(cs, axis=1)\<close>: a \<^verbatim>\<open>KeyError\<close> when a label is not a column.\<close>

definition drop_columns :: "string list \<Rightarrow> frame \<Rightarrow> error + frame" where
  "drop_columns cs df =
     (case filter (\<lambda>c. c \<notin> set (columns df)) cs of
        [] \<Rightarrow> Inr \<lparr>columns = filter (\<lambda>c. c \<notin> set cs) (columns df),
                   rows = map (filter (\<lambda>(c, v). c \<notin> set cs)) (rows df)\<rparr>
      | c # _ \<Rightarrow> Inl (KeyError c))"

text \<open>\<^verbatim>\<open>df.empty\<close>: an axis of length zero.\<close>

definition empty_frame :: "frame \<Rightarrow> bool" where
  "empty_frame df = (columns df = [] \<or> rows df = [])"

text \<open>
  \<^verbatim>\<open>pd.merge(l, r, on=key, how='inner')\<close>: a row for every pair of rows with equal
  keys, in the order of the left frame; a column other than the key that both frames
  have gets the suffixes \<^verbatim>\<open>_x\<close> and \<^verbatim>\<open>_y\<close>. The key must be a column of both.
\<close>

definition suffixed :: "string list \<Rightarrow> string \<Rightarrow> string \<Rightarrow> string" where
  "suffixed ovl sfx c = (if c \<in> set ovl then c @ sfx else c)"

definition merge_inner :: "string \<Rightarrow> frame \<Rightarrow> frame \<Rightarrow> error + frame" where
  "merge_inner key l r =
     (if key \<notin> set (columns l) \<or> key \<notin> set (columns r) then Inl (KeyError key)
      else
        let ovl = filter (\<lambda>c. c \<noteq> key \<and> c \<in> set (columns r)) (columns l);
            left = (\<lambda>lr. map (\<lambda>c. (suffixed ovl ''_x'' c, cell_of lr c)) (columns l));
            right = (\<lambda>rr. map (\<lambda>c. (suffixed ovl ''_y'' c, cell_of rr c))
                       (filter (\<lambda>c. c \<noteq> key) (columns r)))
        in Inr \<lparr>columns = map (suffixed ovl ''_x'') (columns l) @
                   map (suffixed ovl ''_y'') (filter (\<lambda>c. c \<noteq> key) (columns r)),
                 rows = concat (map (\<lambda>lr. map (\<lambda>rr. left lr @ right rr)
                          (filter (\<lambda>rr. cell_of rr key = cell_of lr key) (rows r))) (rows l))\<rparr>)"

text \<open>\<^verbatim>\<open>pd.concat(dfs)\<close>: the rows of all the frames, over all their columns.\<close>

definition concat_frames :: "frame list \<Rightarrow> error + frame" where
  "concat_frames dfs =
     (if dfs = [] then Inl (ValueError ''No objects to concatenate'')
      else Inr \<lparr>columns = remdups (concat (map columns dfs)),
                rows = concat (map rows dfs)\<rparr>)"

text \<open>\<^verbatim>\<open>df.drop_duplicates([c])\<close> keeps the first row of every value.\<close>

fun drop_duplicates :: "string \<Rightarrow> cell list \<Rightarrow> row list \<Rightarrow> row list" where
  "drop_duplicates c seen [] = []"
| "drop_duplicates c seen (r # rs) =
     (if cell_of r c \<in> set seen then drop_duplicates c seen rs
      else r # drop_duplicates c (cell_of r c # seen) rs)"

text \<open>\<^verbatim>\<open>df.fillna('')\<close>\<close>

definition fillna :: "frame \<Rightarrow> frame" where
  "fillna df =
     df\<lparr>rows := map (\<lambda>r. map (\<lambda>c. (c, (case cell_of r c of NaN \<Rightarrow> Txt [] | v \<Rightarrow> v)))
                   (columns df)) (rows df)\<rparr>"

text \<open>
  \<^verbatim>\<open>pd.DataFrame.from_dict(d, orient='index')\<close> for a dictionary of rows, and
  \<^verbatim>\<open>df.to_dict(orient='index')\<close> for a frame whose index is its column \<open>c\<close>: the
  index must be unique.
\<close>

definition from_dict_index :: "samples \<Rightarrow> frame" where
  "from_dict_index d =
     \<lparr>columns = (case d of [] \<Rightarrow> [] | (k, r) # _ \<Rightarrow> map fst r), rows = map snd d\<rparr>"

definition to_dict_index :: "string \<Rightarrow> frame \<Rightarrow> error + samples" where
  "to_dict_index c df =
     (if distinct (map (\<lambda>r. cell_of r c) (rows df))
      then Inr (map (\<lambda>r. (astype_str (cell_of r c), map (\<lambda>k. (k, cell_of r k)) (columns df)))
                  (rows df))
      else Inl (ValueError ''DataFrame index must be unique for orient=index.''))"

subsection \<open>Sample-Sheet Reader\<close>

definition match_samplesheet :: "world \<Rightarrow> string \<Rightarrow> string list" where
  "match_samplesheet w pth = glob w False (path_join pth [''SampleSheet.csv''])"

definition inspect_samplesheet :: "world \<Rightarrow> string option \<Rightarrow> string list \<Rightarrow> error + string list" where
  "inspect_samplesheet w samplesheet runfolders =
     (case samplesheet of
        Some name \<Rightarrow> Inr [name]
      | None \<Rightarrow>
          (let samplesheets = concat (map (match_samplesheet w) runfolders)
           in if length samplesheets = 0
              then Inl (RuntimeError (''Cannot find SampleSheet.csv in '' @ join '', '' runfolders))
              else Inr samplesheets))"

text \<open>
  \<^verbatim>\<open>get_data_from_samplesheet(fh)\<close>. The file is the list of the lines still to
  read; \<^verbatim>\<open>readline\<close> returns the empty string at the end of the file. The state of
  the loop is \<^verbatim>\<open>custom_opts\<close> and \<^verbatim>\<open>opts_d\<close>.

  At the end of the file the function builds its message from \<^verbatim>\<open>s.name\<close>. The name
  \<^verbatim>\<open>s\<close> is bound neither in the function (its parameter is \<^verbatim>\<open>fh\<close>) nor in the
  module (\<^verbatim>\<open>s\<close> is a local variable of two other functions only), so evaluating it
  raises \<^verbatim>\<open>NameError\<close>, and the \<^verbatim>\<open>RuntimeError\<close> of the next line is never raised.

  The unpacking \<^verbatim>\<open>key, val = [...]\<close> raises \<^verbatim>\<open>ValueError\<close> unless the line has
  exactly one comma.
\<close>

definition no_data_msg :: "string \<Rightarrow> string" where
  "no_data_msg name = ''No [data]-section in samplesheet '' @ name"

fun get_data_from_samplesheet :: "world \<Rightarrow> bool \<Rightarrow> pydict \<Rightarrow> string list
    \<Rightarrow> error + (frame \<times> pydict)" where
  "get_data_from_samplesheet w custom_opts opts_d [] = Inl (NameError ''s'')"
| "get_data_from_samplesheet w custom_opts opts_d (line # fh) =
     (if line = [] then Inl (NameError ''s'')
      else if startswith line ''[Data]'' then
        (case read_csv w fh of Inl e \<Rightarrow> Inl e | Inr df \<Rightarrow> Inr (df, opts_d))
      else if startswith line ''[CustomOptions]'' then
        get_data_from_samplesheet w True opts_d fh
      else if custom_opts then
        (case map rstrip (split CHR '','' line) of
           [key, val] \<Rightarrow>
             get_data_from_samplesheet w custom_opts
               (AList.update key (if lower val = ''true'' then PTrue else PStr val) opts_d) fh
         | [x] \<Rightarrow> Inl (ValueError ''not enough values to unpack (expected 2, got 1)'')
         | _ \<Rightarrow> Inl (ValueError ''too many values to unpack (expected 2)''))
      else get_data_from_samplesheet w custom_opts opts_d fh)"

text \<open>
  The loop of \<^verbatim>\<open>get_project_samples_from_samplesheet\<close> over the sheets. Its state is
  \<^verbatim>\<open>df_list\<close> and the variable \<^verbatim>\<open>opts\<close>, unbound before the first sheet and bound
  anew by every sheet.
\<close>

fun sheets_loop :: "world \<Rightarrow> frame list \<times> pydict option \<Rightarrow> string list
    \<Rightarrow> error + (frame list \<times> pydict option)" where
  "sheets_loop w st [] = Inr st"
| "sheets_loop w (df_list, opts) (sheet # ss) =
     (case file_lines w sheet of
        None \<Rightarrow> Inl (FileNotFoundError sheet)
      | Some s \<Rightarrow>
          (case get_data_from_samplesheet w False [] s of
             Inl e \<Rightarrow> Inl e
           | Inr (data, opts') \<Rightarrow> sheets_loop w (df_list @ [data], Some opts') ss))"

text \<open>The comparison \<^verbatim>\<open>df.Sample_Project == project_id\<close> on a cell.\<close>

fun cell_eq_str :: "cell \<Rightarrow> string option \<Rightarrow> bool" where
  "cell_eq_str (Txt s) (Some p) = (s = p)"
| "cell_eq_str _ _ = False"

definition get_project_samples_from_samplesheet ::
    "world \<Rightarrow> string option \<Rightarrow> string list \<Rightarrow> string option \<Rightarrow> error + (frame \<times> pydict)" where
  "get_project_samples_from_samplesheet w samplesheet runfolders project_id =
     (case inspect_samplesheet w samplesheet runfolders of
        Inl e \<Rightarrow> Inl e
      | Inr ss \<Rightarrow>
     (case sheets_loop w ([], None) ss of
        Inl e \<Rightarrow> Inl e
      | Inr (df_list, opts) \<Rightarrow>
     (case concat_frames df_list of
        Inl e \<Rightarrow> Inl e
      | Inr df \<Rightarrow>
          if ''Sample_Project'' \<notin> set (columns df) then Inl (AttributeError ''Sample_Project'')
          else
            let df1 = df\<lparr>rows := filter (\<lambda>r. cell_eq_str (cell_of r ''Sample_Project'') project_id)
                                     (rows df)\<rparr>
            in if ''Sample_ID'' \<notin> set (columns df1) then Inl (KeyError ''Sample_ID'')
               else
                 let df2 = col_astype_str ''Sample_ID'' df1;
                     df3 = \<lparr>columns = [''Sample_ID''],
                            rows = map (\<lambda>r. [(''Sample_ID'', cell_of r ''Sample_ID'')]) (rows df2)\<rparr>;
                     df4 = df3\<lparr>rows := drop_duplicates ''Sample_ID'' [] (rows df3)\<rparr>
                 in (case opts of
                       None \<Rightarrow> Inl (UnboundLocalError ''opts'')
                     | Some opts' \<Rightarrow> Inr (df4, opts')))))"

subsection \<open>FASTQ Matcher\<close>

text \<open>
  \<^verbatim>\<open>match_fastq(sample_name, project_dir, rel_path)\<close>. The pattern is built with
  \<^verbatim>\<open>+\<close>, which raises \<^verbatim>\<open>TypeError\<close> unless the sample name is a string.
\<close>

definition fastq_pattern :: "string \<Rightarrow> string \<Rightarrow> string \<Rightarrow> string" where
  "fastq_pattern project_dir sample_name r =
     path_join project_dir [''**'', sample_name @ ''_*'' @ r @ ''*.fastq.gz'']"

definition match_fastq :: "world \<Rightarrow> cell \<Rightarrow> string \<Rightarrow> bool
    \<Rightarrow> error + (string list \<times> string list)" where
  "match_fastq w sample_name project_dir rel_path =
     (case sample_name of
        Txt name \<Rightarrow>
          (let r1_fastq_files = sort (glob w True (fastq_pattern project_dir name ''R1''));
               r2_fastq_files = sort (glob w True (fastq_pattern project_dir name ''R2''))
           in if rel_path
              then Inr (map (\<lambda>x. relpath w x (dirname (dirname project_dir))) r1_fastq_files,
                        map (\<lambda>x. relpath w x (dirname (dirname project_dir))) r2_fastq_files)
              else Inr (r1_fastq_files, r2_fastq_files))
      | _ \<Rightarrow> Inl (TypeError ''unsupported operand type(s) for +''))"

text \<open>The inner loop of \<^verbatim>\<open>find_samples\<close>, over the project directories.\<close>

fun collect_fastq :: "world \<Rightarrow> cell \<Rightarrow> string list \<times> string list \<Rightarrow> string list
    \<Rightarrow> error + (string list \<times> string list)" where
  "collect_fastq w sample_id st [] = Inr st"
| "collect_fastq w sample_id (s_r1, s_r2) (p_pth # ps) =
     (case match_fastq w sample_id p_pth True of
        Inl e \<Rightarrow> Inl e
      | Inr (r1, r2) \<Rightarrow> collect_fastq w sample_id (s_r1 @ r1, s_r2 @ r2) ps)"

text \<open>The outer loop, over the rows of the table; the state is \<^verbatim>\<open>sample_dict\<close>.\<close>

fun find_samples_loop :: "world \<Rightarrow> string list \<Rightarrow> samples \<Rightarrow> row list \<Rightarrow> error + samples" where
  "find_samples_loop w project_dirs sample_dict [] = Inr sample_dict"
| "find_samples_loop w project_dirs sample_dict (row # rest) =
     (case collect_fastq w (cell_of row ''Sample_ID'') ([], []) project_dirs of
        Inl e \<Rightarrow> Inl e
      | Inr (s_r1, s_r2) \<Rightarrow>
          (let pe = (if length s_r2 = 0 then 0 else 1)
           in find_samples_loop w project_dirs
                (AList.update (astype_str (cell_of row ''Sample_ID''))
                   [(''R1'', Txt (join '','' s_r1)),
                    (''R2'', Txt (join '','' s_r2)),
                    (''paired_end'', Num pe),
                    (''Sample_ID'', cell_of row ''Sample_ID'')]
                   sample_dict)
                rest))"

definition find_samples :: "world \<Rightarrow> frame \<Rightarrow> string list \<Rightarrow> error + samples" where
  "find_samples w df project_dirs =
     (if rows df \<noteq> [] \<and> ''Sample_ID'' \<notin> set (columns df)
      then Inl (AttributeError ''Sample_ID'')
      else find_samples_loop w project_dirs [] (rows df))"

subsection \<open>Submission-Form Merger\<close>

definition customer_column_map :: "(string \<times> string) list" where
  "customer_column_map =
     [(''Unique Sample ID'', ''Sample_ID''),
      (''External ID (optional reference sample ID)'', ''External_ID''),
      (''Sample Group (conditions to be compared)'', ''Sample_Group''),
      (''Comments (optional info that does not fit in other columns)'', ''Customer_Comment''),
      (''Sample biosource (examples: celltype/tissue/FFPE)'', ''Sample_Biosource''),
      (''Project ID'', ''Project_ID''),
      (''Sample type (e.g RNA or DNA or library)'', ''Sample_Type''),
      (''Index1_p7 (If dual indexed libraries are submitted indicate what index sequence is used P7)'',
         ''Index''),
      (''Index2_p5 (If libraries are submitted  indicate what index sequence is used P75)'',
         ''Index2''),
      (''Plate location (if samples delivered in 96 well plates)'', ''Plate''),
      (''Sample Buffer'', ''Sample_Buffer''),
      (''Volume (ul)'', ''Volume''),
      (''Quantification Method'', ''Quantification_Method''),
      (''Concentration (ng/ul)'', ''Concentration''),
      (''260/280 ratio'', ''260/280''),
      (''260/230 ratio'', ''260/230'')]"

definition remove_cols :: "string list" where
  "remove_cols = [''Concentration'', ''Index'', ''Index2'', ''Sample_Type'', ''Plate'',
     ''Sample_Buffer'', ''Volume'', ''Quantification_Method'', ''Concentration'',
     ''260/280'', ''260/230'']"

definition lab_column_map :: "(string \<times> string) list" where
  "lab_column_map =
     [(''Concentration (ng/ul)'', ''Concentration''),
      (''260/280 ratio'', ''260/280''),
      (''260/230 ratio'', ''260/230''),
      (''Comment'', ''Lab_Comment'')]"

text \<open>The two warnings of \<^verbatim>\<open>check_existence_of_samples\<close>, for a list of identifiers.\<close>

definition sheet_only_warning :: "string list \<Rightarrow> string" where
  "sheet_only_warning ids = ''WARNING: Samples '' @ join '', '' ids @
     '' are contained in SampleSheet, but not in sample submission form!''"

definition form_only_warning :: "string list \<Rightarrow> string" where
  "form_only_warning ids = ''WARNING: Samples '' @ join '', '' ids @
     '' are contained in sample submission form, but not in SampleSheet!''"

text \<open>
  \<^verbatim>\<open>check_existence_of_samples(samples, df)\<close> returns nothing; the model returns the
  warnings it logs.
\<close>

definition check_existence_of_samples :: "world \<Rightarrow> string list \<Rightarrow> frame \<Rightarrow> error + string list" where
  "check_existence_of_samples w samples df =
     (if ''Sample_ID'' \<notin> set (columns df) then Inl (KeyError ''Sample_ID'')
      else
        let ids = map (\<lambda>r. astype_str (cell_of r ''Sample_ID'')) (rows df);
            diff1 = list_of_set w (filter (\<lambda>s. s \<notin> set ids) samples);
            diff2 = list_of_set w (filter (\<lambda>s. s \<notin> set samples) ids)
        in Inr ((if diff1 \<noteq> [] then [sheet_only_warning diff1] else []) @
                (if diff2 \<noteq> [] then [form_only_warning diff2] else [])))"

text \<open>
  The table of the submission form that is joined with the samples: the customer sheet,
  joined with the lab sheet unless that is empty, its identifiers converted to strings.
\<close>

definition merged_form :: "frame \<Rightarrow> frame \<Rightarrow> error + frame" where
  "merged_form customer lab =
     (case (if \<not> empty_frame lab then merge_inner ''Sample_ID'' customer lab else Inr customer) of
        Inl e \<Rightarrow> Inl e
      | Inr merge \<Rightarrow>
          if ''Sample_ID'' \<notin> set (columns merge) then Inl (KeyError ''Sample_ID'')
          else Inr (col_astype_str ''Sample_ID'' merge))"

text \<open>
  \<^verbatim>\<open>merge_samples_with_submission_form(ssub, sample_dict)\<close>: the warnings logged, and
  the error raised or the dictionary returned.
\<close>

definition merge_samples_with_submission_form ::
    "world \<Rightarrow> string \<Rightarrow> samples \<Rightarrow> string list \<times> (error + samples)" where
  "merge_samples_with_submission_form w ssub sample_dict =
     (case read_excel w ssub 0 14 of
        Inl e \<Rightarrow> ([], Inl e)
      | Inr customer0 \<Rightarrow>
     (case drop_columns remove_cols (rename_columns customer_column_map customer0) of
        Inl e \<Rightarrow> ([], Inl e)
      | Inr customer \<Rightarrow>
     (case check_existence_of_samples w (map fst sample_dict) customer of
        Inl e \<Rightarrow> ([], Inl e)
      | Inr warnings \<Rightarrow>
     (case read_excel w ssub 2 0 of
        Inl e \<Rightarrow> (warnings, Inl e)
      | Inr lab0 \<Rightarrow>
     (case drop_columns [''Sample_Name'', ''Project ID'', ''KIT'']
             (rename_columns lab_column_map lab0) of
        Inl e \<Rightarrow> (warnings, Inl e)
      | Inr lab \<Rightarrow>
     (case merged_form customer lab of
        Inl e \<Rightarrow> (warnings, Inl e)
      | Inr merge \<Rightarrow>
     (case merge_inner ''Sample_ID'' (from_dict_index sample_dict) merge of
        Inl e \<Rightarrow> (warnings, Inl e)
      | Inr sample_df \<Rightarrow>
          (warnings, to_dict_index ''Sample_ID'' (fillna sample_df)))))))))"

subsection \<open>Config Assembler\<close>

definition SEQUENCERS :: "(string \<times> string) list" where
  "SEQUENCERS =
     [(''NB501038'', ''NextSeq 500''),
      (''SN7001334'', ''HiSeq 2500''),
      (''K00251'', ''HiSeq 4000''),
      (''M02675'', ''MiSeq NTNU''),
      (''M03942'', ''MiSeq StOlav''),
      (''M05617'', ''MiSeq SINTEF'')]"

text \<open>\<^verbatim>\<open>d.get(k, default)\<close>\<close>

definition dict_get :: "('k \<times> 'v) list \<Rightarrow> 'k \<Rightarrow> 'v \<Rightarrow> 'v" where
  "dict_get d k dflt = (case map_of d k of Some v \<Rightarrow> v | None \<Rightarrow> dflt)"

text \<open>
  \<^verbatim>\<open>find_read_geometry(runfolders)\<close>. The state of the loop is the set \<^verbatim>\<open>all\<close> (the
  list of its elements) and \<^verbatim>\<open>read_geometry\<close>, unbound before the first run folder.
\<close>

definition stats_read_geometry :: "(bool \<times> int) list \<Rightarrow> int list" where
  "stats_read_geometry read_infos = map snd (filter (\<lambda>read. \<not> fst read) read_infos)"

fun read_geometry_loop :: "world \<Rightarrow> string list \<times> int list option \<Rightarrow> string list
    \<Rightarrow> error + (string list \<times> int list option)" where
  "read_geometry_loop w st [] = Inr st"
| "read_geometry_loop w (all, read_geometry) (fn # fns) =
     (case stats_json w (path_join fn [''Stats'', ''Stats.json'']) of
        None \<Rightarrow> Inl (FileNotFoundError (path_join fn [''Stats'', ''Stats.json'']))
      | Some lanes \<Rightarrow>
          (case lanes of
             [] \<Rightarrow> Inl IndexError
           | lane # _ \<Rightarrow>
               read_geometry_loop w
                 (List.insert (join '':'' (map str_int (stats_read_geometry lane))) all,
                  Some (stats_read_geometry lane))
                 fns))"

definition find_read_geometry :: "world \<Rightarrow> string list \<Rightarrow> error + int list" where
  "find_read_geometry w run_folders =
     (case read_geometry_loop w ([], None) run_folders of
        Inl e \<Rightarrow> Inl e
      | Inr (all, read_geometry) \<Rightarrow>
          if length all > 1
          then Inl (ValueError ''Read geometry mismatch between runfolders. Check Stats.json!'')
          else (case read_geometry of
                  None \<Rightarrow> Inl (UnboundLocalError ''read_geometry'')
                | Some g \<Rightarrow> Inr g))"

text \<open>
  \<^verbatim>\<open>find_machine(runfolders)\<close>: the warnings logged, and the error raised or the
  string returned. The loop collects the set \<^verbatim>\<open>matches\<close>; the index \<^verbatim>\<open>[1]\<close>
  raises \<^verbatim>\<open>IndexError\<close> for a name without an underscore.
\<close>

fun machine_loop :: "string list \<Rightarrow> string list \<Rightarrow> error + string list" where
  "machine_loop matches [] = Inr matches"
| "machine_loop matches (pth # pths) =
     (case split CHR ''_'' (basename pth) of
        _ # machine_code # _ \<Rightarrow>
          machine_loop (List.insert (dict_get SEQUENCERS machine_code []) matches) pths
      | _ \<Rightarrow> Inl IndexError)"

definition find_machine :: "world \<Rightarrow> string list \<Rightarrow> string list \<times> (error + string)" where
  "find_machine w run_folders =
     (case machine_loop [] run_folders of
        Inl e \<Rightarrow> ([], Inl e)
      | Inr matches \<Rightarrow>
          ((if length matches > 1 then [''Multiple sequencing machines identified!''] else []),
           Inr (join ''|'' (list_of_set w matches))))"

text \<open>The arguments of the command line, as \<^verbatim>\<open>parse_args\<close> returns them.\<close>

record args =
  project_id :: "string option"
  runfolders :: "string list"
  samplesheet :: "string option"
  "output" :: string
  ssub :: "string option"
  organism :: "string option"
  libkit :: "string option"
  machine :: "string option"
  create_fastq_dir :: bool

text \<open>
  \<^verbatim>\<open>create_default_config(sample_dict, opts, args, project_id, fastq_dir)\<close>: the
  warnings logged, and the error raised or the configuration returned.
\<close>

text \<open>
  \<open>set_opt k v\<close> is a guarded assignment: \<^verbatim>\<open>config[k] = x\<close> when \<open>v\<close> is \<open>Some x\<close>.
  \<open>nonempty\<close> is the test \<^verbatim>\<open>if x:\<close> on an optional string.
\<close>

definition set_opt :: "string \<Rightarrow> pyval option \<Rightarrow> pydict \<Rightarrow> pydict" where
  "set_opt k v config = (case v of None \<Rightarrow> config | Some x \<Rightarrow> AList.update k x config)"

definition nonempty :: "string option \<Rightarrow> string option" where
  "nonempty x = (case x of None \<Rightarrow> None | Some s \<Rightarrow> if s = [] then None else Some s)"

definition config_head :: "pydict \<Rightarrow> args \<Rightarrow> string option \<Rightarrow> pydict" where
  "config_head opts a pid =
     (let config = [];
          config = set_opt ''project_id'' (map_option PStr (nonempty pid)) config;
          config = set_opt ''organism'' (map_of opts ''Organism'') config;
          config = set_opt ''organism'' (map_option PStr (organism a)) config;
          config = set_opt ''libprepkit'' (map_of opts ''Libprep'') config;
          config = set_opt ''libprepkit'' (map_option PStr (libkit a)) config
      in config)"

definition create_default_config ::
    "world \<Rightarrow> samples \<Rightarrow> pydict \<Rightarrow> args \<Rightarrow> string option \<Rightarrow> string option
     \<Rightarrow> string list \<times> (error + pydict)" where
  "create_default_config w sample_dict opts a pid fastq_dir =
     (case find_read_geometry w (runfolders a) of
        Inl e \<Rightarrow> ([], Inl e)
      | Inr read_geometry \<Rightarrow>
          (case (case nonempty (machine a) of
                   Some m \<Rightarrow> ([], Inr m)
                 | None \<Rightarrow> find_machine w (runfolders a)) of
             (warnings, Inl e) \<Rightarrow> (warnings, Inl e)
           | (warnings, Inr m) \<Rightarrow>
               (let config = config_head opts a pid;
                    config = AList.update ''read_geometry'' (PInts read_geometry) config;
                    config = AList.update ''machine'' (PStr m) config;
                    config = set_opt ''fastq_dir'' (map_option PStr (nonempty fastq_dir)) config;
                    config = AList.update ''samples'' (PSamples sample_dict) config
                in (warnings, Inr config))))"

subsection \<open>The main program\<close>

text \<open>
  The option \<^verbatim>\<open>--output\<close> has the type \<^verbatim>\<open>argparse.FileType('w')\<close>, also for its
  default \<^verbatim>\<open>config.yaml\<close>: \<^verbatim>\<open>parse_args\<close> opens the file for writing, which
  creates it or truncates it; the name \<^verbatim>\<open>-\<close> stands for the standard output.
\<close>

definition open_w :: "world \<Rightarrow> string \<Rightarrow> world" where
  "open_w w p =
     (if p = ''-'' then w
      else w\<lparr>file_lines := (file_lines w)(p \<mapsto> []),
             path_exists := (path_exists w)(p := True),
             lexists := (lexists w)(p := True)\<rparr>)"

text \<open>\<^verbatim>\<open>yaml.dump(config, args.output)\<close> writes to the file opened by \<open>open_w\<close>.\<close>

definition write_out :: "world \<Rightarrow> string \<Rightarrow> string list \<Rightarrow> world" where
  "write_out w p ls =
     (if p = ''-'' then w\<lparr>stdout := stdout w @ ls\<rparr>
      else w\<lparr>file_lines := (file_lines w)(p \<mapsto> ls)\<rparr>)"

text \<open>
  \<^verbatim>\<open>os.makedirs(p, exist_ok=True)\<close> and \<^verbatim>\<open>os.symlink(src, dst)\<close>: the first fails
  when \<open>p\<close> is there and is no directory, the second when \<open>dst\<close> is there.
\<close>

definition makedirs :: "world \<Rightarrow> string \<Rightarrow> error + world" where
  "makedirs w p =
     (if lexists w p \<and> \<not> isdir w p then Inl (FileExistsError p)
      else Inr (w\<lparr>isdir := (isdir w)(p := True),
                  path_exists := (path_exists w)(p := True),
                  lexists := (lexists w)(p := True)\<rparr>))"

definition symlink :: "world \<Rightarrow> string \<Rightarrow> string \<Rightarrow> error + world" where
  "symlink w src dst =
     (if lexists w dst then Inl (FileExistsError dst)
      else Inr (w\<lparr>lexists := (lexists w)(dst := True),
                  path_exists := (path_exists w)(dst := path_exists w src),
                  isdir := (isdir w)(dst := isdir w src),
                  symlinks := symlinks w @ [(src, dst)]\<rparr>))"

text \<open>
  The loops that link the FASTQ files. Each returns the file system it leaves and the
  error that stopped it, if any.
\<close>

fun link_files :: "world \<Rightarrow> string \<Rightarrow> (string \<times> string) list \<Rightarrow> world \<times> error option" where
  "link_files w default_fastq_dir [] = (w, None)"
| "link_files w default_fastq_dir ((src, dst) # rest) =
     (case makedirs w (dirname (path_join default_fastq_dir [dst])) of
        Inl e \<Rightarrow> (w, Some e)
      | Inr w1 \<Rightarrow>
          (case symlink w1 src (path_join default_fastq_dir [dst]) of
             Inl e \<Rightarrow> (w1, Some e)
           | Inr w2 \<Rightarrow> link_files w2 default_fastq_dir rest))"

fun link_project_dirs :: "world \<Rightarrow> string \<Rightarrow> string \<Rightarrow> string list \<Rightarrow> world \<times> error option" where
  "link_project_dirs w default_fastq_dir sample_id [] = (w, None)"
| "link_project_dirs w default_fastq_dir sample_id (pid # pids) =
     (case match_fastq w (Txt sample_id) pid False of
        Inl e \<Rightarrow> (w, Some e)
      | Inr (r1_src, r2_src) \<Rightarrow>
     (case match_fastq w (Txt sample_id) pid True of
        Inl e \<Rightarrow> (w, Some e)
      | Inr (r1_dst, r2_dst) \<Rightarrow>
     (case link_files w default_fastq_dir (zip r1_src r1_dst) of
        (w1, Some e) \<Rightarrow> (w1, Some e)
      | (w1, None) \<Rightarrow>
     (case link_files w1 default_fastq_dir (zip r2_src r2_dst) of
        (w2, Some e) \<Rightarrow> (w2, Some e)
      | (w2, None) \<Rightarrow> link_project_dirs w2 default_fastq_dir sample_id pids))))"

fun link_samples :: "world \<Rightarrow> string \<Rightarrow> string list \<Rightarrow> string list \<Rightarrow> world \<times> error option" where
  "link_samples w default_fastq_dir project_dirs [] = (w, None)"
| "link_samples w default_fastq_dir project_dirs (sample_id # ids) =
     (case link_project_dirs w default_fastq_dir sample_id project_dirs of
        (w1, Some e) \<Rightarrow> (w1, Some e)
      | (w1, None) \<Rightarrow> link_samples w1 default_fastq_dir project_dirs ids)"

definition create_fastq_links :: "world \<Rightarrow> string list \<Rightarrow> samples \<Rightarrow> world \<times> error option" where
  "create_fastq_links w project_dirs sample_dict =
     (case makedirs w ''data/raw/fastq'' of
        Inl e \<Rightarrow> (w, Some e)
      | Inr w1 \<Rightarrow> link_samples w1 ''data/raw/fastq'' project_dirs (map fst sample_dict))"

text \<open>The submission form that is used when \<^verbatim>\<open>--sample-submission-form\<close> is not given.\<close>

definition default_ssub :: "world \<Rightarrow> args \<Rightarrow> error + string option" where
  "default_ssub w a =
     (case ssub a of
        Some f \<Rightarrow> Inr (Some f)
      | None \<Rightarrow>
          (case runfolders a of
             [rf] \<Rightarrow>
               (if path_exists w (path_join rf [''Sample-Submission-Form.xlsx''])
                then Inr (Some (path_join rf [''Sample-Submission-Form.xlsx'']))
                else Inr None)
           | _ \<Rightarrow> Inl (ValueError
               ''`--sample-submission-form` option is required with multiple runfolders.'')))"

text \<open>
  The program from \<^verbatim>\<open>parse_args\<close> on, for arguments that parse: the file system it
  leaves, the warnings it logs, and the error that aborts it, if any.
\<close>

definition main :: "world \<Rightarrow> args \<Rightarrow> world \<times> string list \<times> error option" where
  "main w0 a =
     (let w = open_w w0 (output a) in
      case inspect_dirs w (runfolders a) (project_id a) of
        Inl e \<Rightarrow> (w, [], Some e)
      | Inr (project_dirs, pid) \<Rightarrow>
     (case get_project_samples_from_samplesheet w (samplesheet a) (runfolders a) pid of
        Inl e \<Rightarrow> (w, [], Some e)
      | Inr (s_df, opts) \<Rightarrow>
     (case find_samples w s_df project_dirs of
        Inl e \<Rightarrow> (w, [], Some e)
      | Inr sample_dict0 \<Rightarrow>
     (case default_ssub w a of
        Inl e \<Rightarrow> (w, [], Some e)
      | Inr form \<Rightarrow>
     (case (case form of
              None \<Rightarrow> ([], Inr sample_dict0)
            | Some f \<Rightarrow> merge_samples_with_submission_form w f sample_dict0) of
        (log1, Inl e) \<Rightarrow> (w, log1, Some e)
      | (log1, Inr sample_dict) \<Rightarrow>
     (case (if create_fastq_dir a
            then (case create_fastq_links w project_dirs sample_dict of
                    (w1, err) \<Rightarrow> (w1, err, Some ''data/raw/fastq''))
            else (w, None, None)) of
        (w1, Some e, fastq_dir) \<Rightarrow> (w1, log1, Some e)
      | (w1, None, fastq_dir) \<Rightarrow>
     (case create_default_config w1 sample_dict opts a pid fastq_dir of
        (log2, Inl e) \<Rightarrow> (w1, log1 @ log2, Some e)
      | (log2, Inr config) \<Rightarrow>
          (write_out w1 (output a) (yaml_dump w1 config), log1 @ log2, None))))))))"

text \<open>The error of the specification for a sheet without a \<^verbatim>\<open>[Data]\<close> section.\<close>

fun MalformedSampleSheetError :: "error \<Rightarrow> bool" where
  "MalformedSampleSheetError (RuntimeError m) = startswith m ''No [data]-section in samplesheet ''"
| "MalformedSampleSheetError _ = False"


subsection \<open>Concrete inputs\<close>

text \<open>An empty file system, and variations of it for the examples below.\<close>

definition world0 :: world where
  "world0 = \<lparr> listdir = (\<lambda>p. []), isdir = (\<lambda>p. False), path_exists = (\<lambda>p. False),
      lexists = (\<lambda>p. False), glob = (\<lambda>r p. []), relpath = (\<lambda>p s. p),
      file_lines = (\<lambda>p. None), read_csv = (\<lambda>ls. Inr \<lparr>columns = [], rows = []\<rparr>),
      stats_json = (\<lambda>p. None),
      read_excel = (\<lambda>n s k. Inr \<lparr>columns = [], rows = []\<rparr>),
      yaml_dump = (\<lambda>c. map fst c), set_order = (\<lambda>xs. xs), symlinks = [], stdout = [] \<rparr>"



text \<open>A sheet without a \<^verbatim>\<open>[Data]\<close> section.\<close>

definition sheet_without_data :: "string list" where
  "sheet_without_data = [''[Header]\<newline>'', ''IEMFileVersion,4\<newline>'']"


text \<open>Two run folders with a sample sheet each; only the first sheet has custom options.\<close>

text \<open>A reader of comma-separated lines for the examples: a header and rows of texts.\<close>

definition simple_csv :: "string list \<Rightarrow> error + frame" where
  "simple_csv ls =
     (case ls of
        [] \<Rightarrow> Inl (ValueError ''No columns to parse from file'')
      | h # rest \<Rightarrow>
          (let cols = map rstrip (split CHR '','' h)
           in Inr \<lparr>columns = cols,
                    rows = map (\<lambda>l. zip cols (map (\<lambda>x. Txt (rstrip x)) (split CHR '','' l))) rest\<rparr>))"

definition folder_A :: string where
  "folder_A = ''/seq/200101_NB501038_0001_A''"

definition folder_B :: string where
  "folder_B = ''/seq/200102_NB501038_0002_B''"

definition sheet_A :: "string list" where
  "sheet_A = [''[CustomOptions]\<newline>'', ''Organism,human\<newline>'', ''[Data]\<newline>'',
     ''Sample_ID,Sample_Project\<newline>'', ''S1,GCF-2020-001\<newline>'']"

definition sheet_B :: "string list" where
  "sheet_B = [''[Header]\<newline>'', ''[Data]\<newline>'',
     ''Sample_ID,Sample_Project\<newline>'', ''S2,GCF-2020-001\<newline>'']"

definition world_two_sheets :: world where
  "world_two_sheets = world0 \<lparr>
     glob := (\<lambda>r p. if p = ''/seq/200101_NB501038_0001_A/SampleSheet.csv'' \<or>
                        p = ''/seq/200102_NB501038_0002_B/SampleSheet.csv'' then [p] else []),
     file_lines := (\<lambda>p. if p = ''/seq/200101_NB501038_0001_A/SampleSheet.csv'' then Some sheet_A
                         else if p = ''/seq/200102_NB501038_0002_B/SampleSheet.csv'' then Some sheet_B
                         else None),
     read_csv := simple_csv \<rparr>"


text \<open>Whether a file matches the R2 pattern of a sample in some project directory.\<close>

definition r2_found :: "world \<Rightarrow> string list \<Rightarrow> string \<Rightarrow> bool" where
  "r2_found w project_dirs sid =
     list_ex (\<lambda>p. glob w True (fastq_pattern p sid ''R2'') \<noteq> []) project_dirs"

definition paired_end_of :: "world \<Rightarrow> string list \<Rightarrow> string \<Rightarrow> cell" where
  "paired_end_of w project_dirs sid = Num (if r2_found w project_dirs sid then 1 else 0)"

text \<open>The invariant of the loop of \<^verbatim>\<open>find_samples\<close>: every entry has the flag of its key.\<close>

definition pe_inv :: "world \<Rightarrow> string list \<Rightarrow> samples \<Rightarrow> bool" where
  "pe_inv w dirs sd =
     (\<forall>k rec. map_of sd k = Some rec \<longrightarrow>
        map_of rec ''paired_end'' = Some (paired_end_of w dirs k))"

text \<open>
  Two project directories: sample S1 has an R1 file in the first, sample S2 an R1 file
  and an R2 file in the second.
\<close>

definition world_fastq :: world where
  "world_fastq = world0 \<lparr>
     glob := (\<lambda>r p.
       if p = ''/seq/200101_NB501038_0001_A/GCF-2020-001/**/S1_*R1*.fastq.gz''
         then [''/seq/200101_NB501038_0001_A/GCF-2020-001/S1_S1_R1_001.fastq.gz'']
       else if p = ''/seq/200102_NB501038_0002_B/GCF-2020-001/**/S2_*R1*.fastq.gz''
         then [''/seq/200102_NB501038_0002_B/GCF-2020-001/S2_S2_R1_001.fastq.gz'']
       else if p = ''/seq/200102_NB501038_0002_B/GCF-2020-001/**/S2_*R2*.fastq.gz''
         then [''/seq/200102_NB501038_0002_B/GCF-2020-001/S2_S2_R2_001.fastq.gz'']
       else []) \<rparr>"

definition two_samples :: frame where
  "two_samples = \<lparr>columns = [''Sample_ID''],
     rows = [[(''Sample_ID'', Txt ''S1'')], [(''Sample_ID'', Txt ''S2'')]]\<rparr>"

definition two_project_dirs :: "string list" where
  "two_project_dirs = [''/seq/200101_NB501038_0001_A/GCF-2020-001'',
     ''/seq/200102_NB501038_0002_B/GCF-2020-001'']"

text \<open>
  A run folder with its \<^verbatim>\<open>Stats.json\<close> (two reads of 151 cycles and an index read),
  and a second run folder of an unknown machine with the same read geometry.
\<close>

definition folder_C :: string where
  "folder_C = ''/seq/200103_XX999_0003_C''"

definition world_stats :: world where
  "world_stats = world0 \<lparr>
     stats_json := (\<lambda>p. if p = ''/seq/200101_NB501038_0001_A/Stats/Stats.json'' \<or>
                           p = ''/seq/200103_XX999_0003_C/Stats/Stats.json''
                        then Some [[(False, 151), (True, 8), (False, 151)]] else None) \<rparr>"


text \<open>The machine code of a run folder: the second segment of its name.\<close>

definition machine_code :: "string \<Rightarrow> string" where
  "machine_code pth = (case split CHR ''_'' (basename pth) of _ # c # _ \<Rightarrow> c | _ \<Rightarrow> [])"

text \<open>The order of iteration over a set lists every element once.\<close>

definition rearranges :: "world \<Rightarrow> bool" where
  "rearranges w =
     (\<forall>xs. distinct xs \<longrightarrow> distinct (set_order w xs) \<and> set (set_order w xs) = set xs)"

definition args_two_machines :: args where
  "args_two_machines = \<lparr> project_id = None, runfolders = [folder_A, folder_C],
     samplesheet = None, output = ''config.yaml'', ssub = None, organism = None,
     libkit = None, machine = None, create_fastq_dir = False \<rparr>"

section \<open>Properties\<close>

lemma re_match_prefix: "re_match ps s = Some m \<Longrightarrow> m = take (length ps) s \<and> length ps \<le> length s"
proof (induction ps s arbitrary: m rule: re_match.induct)
  case (1 s)
  then show ?case by simp
next
  case (2 p ps)
  then show ?case by simp
next
  case (3 p ps c cs)
  then show ?case by (auto split: if_splits option.splits)
qed

text \<open>
  C5, at the input of the claim: \<^verbatim>\<open>GCF-2020-0011\<close> is not of the format, and the code
  accepts it and returns another identifier, \<^verbatim>\<open>GCF-2020-001\<close>.
\<close>

theorem is_valid_gcf_id_trailing:
  "\<not> fullmatch gcf_patt ''GCF-2020-0011'' \<and>
   is_valid_gcf_id (Some ''GCF-2020-0011'') gcf_patt = Inr (RId ''GCF-2020-001'')"
  by (simp add: fullmatch_def gcf_patt_def is_valid_gcf_id_def isdigit_def strip_def
      lstrip_def rstrip_def isspace_def numeral_eq_Suc)

subsection \<open>Input Resolver\<close>






















subsection \<open>Sample-Sheet Reader\<close>

lemma get_data_no_marker:
  "\<forall>l \<in> set fh. \<not> startswith l ''[Data]'' \<Longrightarrow>
     get_data_from_samplesheet w custom_opts opts_d fh = Inl (NameError ''s'') \<or>
     (\<exists>m. get_data_from_samplesheet w custom_opts opts_d fh = Inl (ValueError m))"
proof (induction fh arbitrary: custom_opts opts_d)
  case Nil
  then show ?case by simp
next
  case (Cons line fh)
  then have nd: "\<not> startswith line ''[Data]''"
    and rest: "\<forall>l \<in> set fh. \<not> startswith l ''[Data]''" by simp_all
  note IH = Cons.IH [OF rest]
  show ?case
  proof (cases "line = []")
    case True
    then show ?thesis by simp
  next
    case ne: False
    show ?thesis
    proof (cases "startswith line ''[CustomOptions]''")
      case True
      with ne nd IH [of True opts_d] show ?thesis by simp
    next
      case nc: False
      show ?thesis
      proof (cases custom_opts)
        case False
        with ne nd nc IH [of False opts_d] show ?thesis by simp
      next
        case True
        show ?thesis
        proof (cases "map rstrip (split CHR '','' line)")
          case Nil
          with ne nd nc True show ?thesis by simp
        next
          case c1: (Cons key r1)
          show ?thesis
          proof (cases r1)
            case Nil
            with c1 ne nd nc True show ?thesis by simp
          next
            case c2: (Cons val r2)
            show ?thesis
            proof (cases r2)
              case Nil
              with c1 c2 ne nd nc True
                IH [of True "AList.update key (if lower val = ''true'' then PTrue else PStr val) opts_d"]
              show ?thesis by simp
            next
              case (Cons a list)
              with c1 c2 ne nd nc True show ?thesis by simp
            qed
          qed
        qed
      qed
    qed
  qed
qed

text \<open>
  C3. A sheet no line of which starts with \<^verbatim>\<open>[Data]\<close> makes the reader fail, and
  never with the error of a malformed sheet: the failure is the \<^verbatim>\<open>NameError\<close> of the
  unbound name, or the \<^verbatim>\<open>ValueError\<close> of an unpacking.
\<close>

theorem get_data_without_data_marker:
  "\<forall>l \<in> set fh. \<not> startswith l ''[Data]'' \<Longrightarrow>
     \<exists>e. get_data_from_samplesheet w False [] fh = Inl e \<and> \<not> MalformedSampleSheetError e"
  using get_data_no_marker [of fh w False "[]"] by auto

theorem get_data_without_data_marker_witness:
  "(\<exists>e. get_data_from_samplesheet world0 False [] sheet_without_data = Inl e \<and>
       \<not> MalformedSampleSheetError e) \<and>
   get_data_from_samplesheet world0 False [] sheet_without_data = Inl (NameError ''s'')"
  using get_data_without_data_marker [of sheet_without_data world0]
  by (simp add: sheet_without_data_def startswith_def)

lemma sheets_loop_last:
  "sheets_loop w st ss = Inr (dfs, Some opts) \<Longrightarrow> ss \<noteq> [] \<Longrightarrow>
     \<exists>ls d. file_lines w (last ss) = Some ls \<and>
            get_data_from_samplesheet w False [] ls = Inr (d, opts)"
proof (induction ss arbitrary: st)
  case Nil
  then show ?case by simp
next
  case (Cons sheet ss)
  obtain df_list o0 where st: "st = (df_list, o0)" by (cases st)
  from Cons.prems(1) st obtain s data opts' where
    fl: "file_lines w sheet = Some s" and
    gd: "get_data_from_samplesheet w False [] s = Inr (data, opts')" and
    rest: "sheets_loop w (df_list @ [data], Some opts') ss = Inr (dfs, Some opts)"
    by (auto split: option.splits sum.splits)
  show ?case
  proof (cases "ss = []")
    case True
    with rest have "opts' = opts" by simp
    with fl gd True show ?thesis by simp
  next
    case False
    from Cons.IH [OF rest False] False show ?thesis by simp
  qed
qed

lemma get_data_A:
  "get_data_from_samplesheet world_two_sheets False [] sheet_A =
     Inr (\<lparr>columns = [''Sample_ID'', ''Sample_Project''],
            rows = [[(''Sample_ID'', Txt ''S1''), (''Sample_Project'', Txt ''GCF-2020-001'')]]\<rparr>,
          [(''Organism'', PStr ''human'')])"
  by (simp add: sheet_A_def world_two_sheets_def world0_def simple_csv_def startswith_def
      rstrip_def isspace_def lower_def lower_char_def)

lemma get_data_B:
  "get_data_from_samplesheet world_two_sheets False [] sheet_B =
     Inr (\<lparr>columns = [''Sample_ID'', ''Sample_Project''],
            rows = [[(''Sample_ID'', Txt ''S2''), (''Sample_Project'', Txt ''GCF-2020-001'')]]\<rparr>,
          [])"
  by (simp add: sheet_B_def world_two_sheets_def world0_def simple_csv_def startswith_def
      rstrip_def isspace_def lower_def lower_char_def)

lemma inspect_two_sheets:
  "inspect_samplesheet world_two_sheets None [folder_A, folder_B] =
     Inr [''/seq/200101_NB501038_0001_A/SampleSheet.csv'',
          ''/seq/200102_NB501038_0002_B/SampleSheet.csv'']"
  by (simp add: inspect_samplesheet_def match_samplesheet_def world_two_sheets_def world0_def
      folder_A_def folder_B_def path_join_def path_join2_def startswith_def endswith_slash_def)

lemma sheets_loop_two_sheets:
  "sheets_loop world_two_sheets ([], None)
     [''/seq/200101_NB501038_0001_A/SampleSheet.csv'',
      ''/seq/200102_NB501038_0002_B/SampleSheet.csv''] =
   Inr ([\<lparr>columns = [''Sample_ID'', ''Sample_Project''],
           rows = [[(''Sample_ID'', Txt ''S1''), (''Sample_Project'', Txt ''GCF-2020-001'')]]\<rparr>,
         \<lparr>columns = [''Sample_ID'', ''Sample_Project''],
           rows = [[(''Sample_ID'', Txt ''S2''), (''Sample_Project'', Txt ''GCF-2020-001'')]]\<rparr>],
        Some [])"
proof -
  have a: "file_lines world_two_sheets ''/seq/200101_NB501038_0001_A/SampleSheet.csv'' = Some sheet_A"
    by (simp add: world_two_sheets_def)
  have b: "file_lines world_two_sheets ''/seq/200102_NB501038_0002_B/SampleSheet.csv'' = Some sheet_B"
    by (simp add: world_two_sheets_def)
  show ?thesis
    by (simp add: a b get_data_A get_data_B)
qed

lemma project_samples_two_sheets:
  "get_project_samples_from_samplesheet world_two_sheets None [folder_A, folder_B]
     (Some ''GCF-2020-001'') =
   Inr (\<lparr>columns = [''Sample_ID''],
          rows = [[(''Sample_ID'', Txt ''S1'')], [(''Sample_ID'', Txt ''S2'')]]\<rparr>, [])"
  by (simp add: get_project_samples_from_samplesheet_def inspect_two_sheets
      sheets_loop_two_sheets concat_frames_def cell_of_def col_astype_str_def
      del: sheets_loop.simps)

text \<open>
  C1. The options that \<^verbatim>\<open>get_project_samples_from_samplesheet\<close> returns are those of
  the last sheet alone: the options of the earlier sheets are parsed and dropped. In the
  example the first sheet sets \<^verbatim>\<open>Organism\<close>, the second sheet sets nothing, and the
  options returned are empty.
\<close>

theorem options_of_last_sheet:
  "get_project_samples_from_samplesheet w None rfs pid = Inr (df, opts) \<Longrightarrow>
     \<exists>ls d. file_lines w (last (concat (map (match_samplesheet w) rfs))) = Some ls \<and>
            get_data_from_samplesheet w False [] ls = Inr (d, opts)"
proof -
  assume r: "get_project_samples_from_samplesheet w None rfs pid = Inr (df, opts)"
  let ?ss = "concat (map (match_samplesheet w) rfs)"
  from r have ne: "?ss \<noteq> []"
    by (auto simp: get_project_samples_from_samplesheet_def inspect_samplesheet_def Let_def
        split: sum.splits if_splits)
  then have ins: "inspect_samplesheet w None rfs = Inr ?ss"
    by (simp add: inspect_samplesheet_def)
  from r ins obtain dfs where "sheets_loop w ([], None) ?ss = Inr (dfs, Some opts)"
    by (auto simp: get_project_samples_from_samplesheet_def Let_def
        split: sum.splits if_splits option.splits prod.splits)
  from sheets_loop_last [OF this ne] show ?thesis .
qed

theorem options_of_last_sheet_witness:
  "get_data_from_samplesheet world_two_sheets False [] sheet_A =
     Inr (\<lparr>columns = [''Sample_ID'', ''Sample_Project''],
            rows = [[(''Sample_ID'', Txt ''S1''), (''Sample_Project'', Txt ''GCF-2020-001'')]]\<rparr>,
          [(''Organism'', PStr ''human'')]) \<and>
   get_project_samples_from_samplesheet world_two_sheets None [folder_A, folder_B]
     (Some ''GCF-2020-001'') =
   Inr (\<lparr>columns = [''Sample_ID''],
          rows = [[(''Sample_ID'', Txt ''S1'')], [(''Sample_ID'', Txt ''S2'')]]\<rparr>, []) \<and>
   (\<exists>ls d. file_lines world_two_sheets
        (last (concat (map (match_samplesheet world_two_sheets) [folder_A, folder_B]))) = Some ls \<and>
      get_data_from_samplesheet world_two_sheets False [] ls = Inr (d, []))"
  using options_of_last_sheet [OF project_samples_two_sheets] get_data_A project_samples_two_sheets
  by simp

subsection \<open>FASTQ Matcher\<close>

lemma match_fastq_r2:
  "match_fastq w c p True = Inr (r1, r2) \<Longrightarrow>
     (r2 = []) = (glob w True (fastq_pattern p (astype_str c) ''R2'') = [])"
  by (cases c) (auto simp: match_fastq_def Let_def simp flip: set_empty)

lemma collect_fastq_r2:
  "collect_fastq w c (a, b) dirs = Inr (s1, s2) \<Longrightarrow>
     (s2 = []) = (b = [] \<and> \<not> r2_found w dirs (astype_str c))"
proof (induction dirs arbitrary: a b)
  case Nil
  then show ?case by (simp add: r2_found_def)
next
  case (Cons p ps)
  from Cons.prems obtain r1 r2 where
    m: "match_fastq w c p True = Inr (r1, r2)" and
    rest: "collect_fastq w c (a @ r1, b @ r2) ps = Inr (s1, s2)"
    by (auto split: sum.splits)
  from Cons.IH [OF rest] match_fastq_r2 [OF m] show ?case
    by (auto simp: r2_found_def)
qed

lemma find_samples_loop_inv:
  "find_samples_loop w dirs sd rs = Inr sd' \<Longrightarrow> pe_inv w dirs sd \<Longrightarrow>
     pe_inv w dirs sd' \<and>
     (\<forall>r \<in> set rs. astype_str (cell_of r ''Sample_ID'') \<in> dom (map_of sd')) \<and>
     dom (map_of sd) \<subseteq> dom (map_of sd')"
proof (induction rs arbitrary: sd)
  case Nil
  then show ?case by simp
next
  case (Cons r rs)
  let ?c = "cell_of r ''Sample_ID''"
  from Cons.prems(1) obtain s1 s2 where
    col: "collect_fastq w ?c ([], []) dirs = Inr (s1, s2)"
    by (auto split: sum.splits)
  let ?rec = "[(''R1'', Txt (join '','' s1)), (''R2'', Txt (join '','' s2)),
               (''paired_end'', Num (if length s2 = 0 then 0 else 1)), (''Sample_ID'', ?c)]"
  let ?sd1 = "AList.update (astype_str ?c) ?rec sd"
  from Cons.prems(1) col have rest: "find_samples_loop w dirs ?sd1 rs = Inr sd'"
    by (simp add: Let_def)
  from collect_fastq_r2 [OF col]
  have pe: "Num (if length s2 = 0 then 0 else 1) = paired_end_of w dirs (astype_str ?c)"
    by (simp add: paired_end_of_def)
  have inv1: "pe_inv w dirs ?sd1"
    using Cons.prems(2) pe
    unfolding pe_inv_def by (simp add: update_conv')
  have dom1: "dom (map_of ?sd1) = insert (astype_str ?c) (dom (map_of sd))"
    by (simp add: update_conv')
  from Cons.IH [OF rest inv1] dom1 show ?case by auto
qed

lemma collect_fastq_total:
  "\<exists>s1 s2. collect_fastq w (Txt sid) st dirs = Inr (s1, s2)"
proof (induction dirs arbitrary: st)
  case Nil
  then show ?case by (cases st) simp
next
  case (Cons p ps)
  obtain a b where st: "st = (a, b)" by (cases st)
  obtain r1 r2 where m: "match_fastq w (Txt sid) p True = Inr (r1, r2)"
    by (simp add: match_fastq_def Let_def)
  from Cons.IH [of "(a @ r1, b @ r2)"] st m show ?case by simp
qed

lemma find_samples_loop_total:
  "\<forall>r \<in> set rs. \<exists>s. cell_of r ''Sample_ID'' = Txt s \<Longrightarrow>
     \<exists>sd'. find_samples_loop w dirs sd rs = Inr sd'"
proof (induction rs arbitrary: sd)
  case Nil
  then show ?case by simp
next
  case (Cons r rs)
  then obtain s where c: "cell_of r ''Sample_ID'' = Txt s" by auto
  obtain s1 s2 where col: "collect_fastq w (Txt s) ([], []) dirs = Inr (s1, s2)"
    using collect_fastq_total by blast
  from Cons.prems have rest: "\<forall>r \<in> set rs. \<exists>s. cell_of r ''Sample_ID'' = Txt s" by simp
  from Cons.IH [OF rest] c col show ?case by (simp add: Let_def)
qed

text \<open>
  C6. For a table of samples whose identifiers are strings, as the Sample-Sheet Reader
  returns it, \<^verbatim>\<open>find_samples\<close> returns a dictionary with an entry for every sample, and
  the \<^verbatim>\<open>paired_end\<close> flag of the entry is 1 if the R2 pattern of the sample matches a
  file in some project directory, and 0 otherwise. The flag is a function of the file
  system (of \<open>glob\<close>) and of the arguments alone.
\<close>

theorem find_samples_paired_end:
  assumes col: "''Sample_ID'' \<in> set (columns df)"
    and cells: "\<forall>r \<in> set (rows df). \<exists>s. cell_of r ''Sample_ID'' = Txt s"
  shows "\<exists>sample_dict. find_samples w df project_dirs = Inr sample_dict \<and>
     (\<forall>r \<in> set (rows df). \<exists>rec.
        map_of sample_dict (astype_str (cell_of r ''Sample_ID'')) = Some rec \<and>
        map_of rec ''paired_end'' =
          Some (Num (if \<exists>p \<in> set project_dirs.
                          glob w True (fastq_pattern p (astype_str (cell_of r ''Sample_ID'')) ''R2'') \<noteq> []
                     then 1 else 0)))"
proof -
  from find_samples_loop_total [OF cells] obtain sd where
    loop: "find_samples_loop w project_dirs [] (rows df) = Inr sd" by blast
  with col have res: "find_samples w df project_dirs = Inr sd"
    by (simp add: find_samples_def)
  have "pe_inv w project_dirs []" by (simp add: pe_inv_def)
  from find_samples_loop_inv [OF loop this]
  have inv: "pe_inv w project_dirs sd"
    and dom: "\<forall>r \<in> set (rows df). astype_str (cell_of r ''Sample_ID'') \<in> dom (map_of sd)"
    by simp_all
  have "\<exists>rec. map_of sd (astype_str (cell_of r ''Sample_ID'')) = Some rec \<and>
        map_of rec ''paired_end'' =
          Some (Num (if \<exists>p \<in> set project_dirs.
                          glob w True (fastq_pattern p (astype_str (cell_of r ''Sample_ID'')) ''R2'') \<noteq> []
                     then 1 else 0))"
    if r: "r \<in> set (rows df)" for r
  proof -
    from dom r obtain rec where
      m: "map_of sd (astype_str (cell_of r ''Sample_ID'')) = Some rec" by auto
    with inv have "map_of rec ''paired_end'' =
        Some (paired_end_of w project_dirs (astype_str (cell_of r ''Sample_ID'')))"
      by (simp add: pe_inv_def)
    with m show ?thesis
      by (simp add: paired_end_of_def r2_found_def list_ex_iff)
  qed
  with res show ?thesis by blast
qed

lemma find_two_samples:
  "find_samples world_fastq two_samples two_project_dirs =
     Inr [(''S1'', [(''R1'', Txt ''/seq/200101_NB501038_0001_A/GCF-2020-001/S1_S1_R1_001.fastq.gz''),
                    (''R2'', Txt ''''), (''paired_end'', Num 0), (''Sample_ID'', Txt ''S1'')]),
          (''S2'', [(''R1'', Txt ''/seq/200102_NB501038_0002_B/GCF-2020-001/S2_S2_R1_001.fastq.gz''),
                    (''R2'', Txt ''/seq/200102_NB501038_0002_B/GCF-2020-001/S2_S2_R2_001.fastq.gz''),
                    (''paired_end'', Num 1), (''Sample_ID'', Txt ''S2'')])]"
  by (simp add: find_samples_def two_samples_def two_project_dirs_def world_fastq_def
      world0_def cell_of_def match_fastq_def fastq_pattern_def path_join_def path_join2_def
      startswith_def endswith_slash_def Let_def)

theorem find_samples_paired_end_witness:
  "''Sample_ID'' \<in> set (columns two_samples) \<and>
   (\<exists>sample_dict. find_samples world_fastq two_samples two_project_dirs = Inr sample_dict \<and>
      (\<exists>rec. map_of sample_dict ''S1'' = Some rec \<and> map_of rec ''paired_end'' = Some (Num 0)) \<and>
      (\<exists>rec. map_of sample_dict ''S2'' = Some rec \<and> map_of rec ''paired_end'' = Some (Num 1)))"
proof -
  have col: "''Sample_ID'' \<in> set (columns two_samples)"
    by (simp add: two_samples_def)
  have cells: "\<forall>r \<in> set (rows two_samples). \<exists>s. cell_of r ''Sample_ID'' = Txt s"
    by (simp add: two_samples_def cell_of_def)
  from find_samples_paired_end [OF col cells, of world_fastq two_project_dirs]
  show ?thesis
    by (simp add: col find_two_samples)
qed

subsection \<open>Config Assembler\<close>

lemma map_of_set_opt:
  "map_of (set_opt k v config) k' =
     (if k' = k then (case v of None \<Rightarrow> map_of config k | Some x \<Rightarrow> Some x)
      else map_of config k')"
  by (cases v) (simp_all add: set_opt_def update_conv')



lemma create_default_config_shape:
  "create_default_config w sample_dict opts a pid fastq_dir = (log, Inr config) \<Longrightarrow>
     \<exists>g m. config =
       AList.update ''samples'' (PSamples sample_dict)
         (set_opt ''fastq_dir'' (map_option PStr (nonempty fastq_dir))
           (AList.update ''machine'' (PStr m)
             (AList.update ''read_geometry'' (PInts g) (config_head opts a pid)))) \<and>
       find_read_geometry w (runfolders a) = Inr g \<and>
       (case nonempty (machine a) of Some m' \<Rightarrow> m = m'
        | None \<Rightarrow> snd (find_machine w (runfolders a)) = Inr m)"
  by (auto simp: create_default_config_def Let_def split: sum.splits option.splits prod.splits)



lemma basename_A: "split CHR ''_'' (basename folder_A) = [''200101'', ''NB501038'', ''0001'', ''A'']"
  by (simp add: folder_A_def basename_def rsplit_slash_def)

lemma basename_C: "split CHR ''_'' (basename folder_C) = [''200103'', ''XX999'', ''0003'', ''C'']"
  by (simp add: folder_C_def basename_def rsplit_slash_def)




lemma split_no_sep: "c \<notin> set x \<Longrightarrow> split c x = [x]"
  by (induction x) auto

lemma split_append_sep: "c \<notin> set x \<Longrightarrow> split c (x @ c # rest) = x # split c rest"
  by (induction x) auto

lemma split_join:
  "xs \<noteq> [] \<Longrightarrow> \<forall>x \<in> set xs. c \<notin> set x \<Longrightarrow> split c (join [c] xs) = xs"
proof (induction "[c]" xs rule: join.induct)
  case 1
  then show ?case by simp
next
  case (2 x)
  then show ?case by (simp add: split_no_sep)
next
  case (3 x y ys)
  then show ?case by (simp add: split_append_sep)
qed

lemma sequencers_no_pipe: "CHR ''|'' \<notin> set (dict_get SEQUENCERS code [])"
  by (simp add: SEQUENCERS_def dict_get_def)

lemma machine_loop_set:
  "machine_loop acc pths = Inr ms \<Longrightarrow>
     set ms = set acc \<union> (\<lambda>p. dict_get SEQUENCERS (machine_code p) []) ` set pths \<and>
     (distinct acc \<longrightarrow> distinct ms)"
proof (induction pths arbitrary: acc)
  case Nil
  then show ?case by simp
next
  case (Cons p ps)
  from Cons.prems obtain a c r where
    sp: "split CHR ''_'' (basename p) = a # c # r" and
    rest: "machine_loop (List.insert (dict_get SEQUENCERS c []) acc) ps = Inr ms"
    by (auto split: list.splits)
  from sp have mc: "machine_code p = c" by (simp add: machine_code_def)
  from Cons.IH [OF rest] mc show ?case by auto
qed

lemma read_geometry_nonempty:
  "find_read_geometry w rfs = Inr g \<Longrightarrow> rfs \<noteq> []"
  by (auto simp: find_read_geometry_def)

lemma find_machine_components:
  assumes r: "rearranges w"
    and ne: "rfs \<noteq> []"
    and fm: "snd (find_machine w rfs) = Inr m"
  shows "set (split CHR ''|'' m) = (\<lambda>p. dict_get SEQUENCERS (machine_code p) []) ` set rfs \<and>
     distinct (split CHR ''|'' m)"
proof -
  from fm obtain ms where
    loop: "machine_loop [] rfs = Inr ms" and
    m: "m = join ''|'' (list_of_set w ms)"
    by (auto simp: find_machine_def split: sum.splits)
  from machine_loop_set [OF loop]
  have ms: "set ms = (\<lambda>p. dict_get SEQUENCERS (machine_code p) []) ` set rfs" by simp
  let ?xs = "list_of_set w ms"
  have d: "distinct (sort (remdups ms))" by simp
  from r d have dx: "distinct ?xs" and sx: "set ?xs = set ms"
    by (simp_all add: rearranges_def list_of_set_def)
  from ne ms sx have xne: "?xs \<noteq> []" by auto
  have "\<forall>x \<in> set ?xs. CHR ''|'' \<notin> set x"
    using sx ms sequencers_no_pipe by auto
  from split_join [OF xne this] have "split CHR ''|'' m = ?xs"
    by (simp add: m)
  with dx sx ms show ?thesis by simp
qed

text \<open>
  C2 (amended). Without the argument \<^verbatim>\<open>--machine\<close>, the field \<^verbatim>\<open>machine\<close> of the
  configuration is the join with \<^verbatim>\<open>|\<close> of the distinct model names of the run folders,
  in some order, where a machine code that is not in the table contributes the empty
  string: the components of the field are exactly the values the table gives for the
  machine codes, the empty string among them, each once.
\<close>

theorem machine_field_components:
  assumes r: "rearranges w"
    and no_override: "machine a = None"
    and res: "create_default_config w sample_dict opts a pid fastq_dir = (log, Inr config)"
  shows "\<exists>m. map_of config ''machine'' = Some (PStr m) \<and>
     set (split CHR ''|'' m) =
       (\<lambda>p. dict_get SEQUENCERS (machine_code p) []) ` set (runfolders a) \<and>
     distinct (split CHR ''|'' m)"
proof -
  from create_default_config_shape [OF res] no_override obtain g m where
    c: "config =
       AList.update ''samples'' (PSamples sample_dict)
         (set_opt ''fastq_dir'' (map_option PStr (nonempty fastq_dir))
           (AList.update ''machine'' (PStr m)
             (AList.update ''read_geometry'' (PInts g) (config_head opts a pid))))"
    and g: "find_read_geometry w (runfolders a) = Inr g"
    and fm: "snd (find_machine w (runfolders a)) = Inr m"
    by (auto simp: nonempty_def)
  have "map_of config ''machine'' = Some (PStr m)"
    unfolding c by (simp add: update_conv' map_of_set_opt)
  with find_machine_components [OF r read_geometry_nonempty [OF g] fm]
  show ?thesis by blast
qed

lemma rearranges_world_stats: "rearranges world_stats"
  by (simp add: rearranges_def world_stats_def world0_def)

lemma read_geometry_A_C:
  "find_read_geometry world_stats [folder_A, folder_C] = Inr [151, 151]"
  by (simp add: find_read_geometry_def world_stats_def world0_def folder_A_def folder_C_def
      path_join_def path_join2_def startswith_def endswith_slash_def stats_read_geometry_def)

lemma find_machine_A_C:
  "find_machine world_stats [folder_A, folder_C] =
     ([''Multiple sequencing machines identified!''], Inr ''|NextSeq 500'')"
  by (simp add: find_machine_def basename_A basename_C SEQUENCERS_def dict_get_def
      list_of_set_def world_stats_def world0_def)

lemma config_two_machines:
  "create_default_config world_stats [] [] args_two_machines (Some ''GCF-2020-001'') None =
   ([''Multiple sequencing machines identified!''],
    Inr [(''project_id'', PStr ''GCF-2020-001''),
         (''read_geometry'', PInts [151, 151]), (''machine'', PStr ''|NextSeq 500''),
         (''samples'', PSamples [])])"
proof -
  have rf: "runfolders args_two_machines = [folder_A, folder_C]"
    and m: "machine args_two_machines = None"
    and o: "organism args_two_machines = None" and l: "libkit args_two_machines = None"
    by (simp_all add: args_two_machines_def)
  show ?thesis
    by (simp add: create_default_config_def rf m o l read_geometry_A_C find_machine_A_C
        config_head_def set_opt_def nonempty_def)
qed

text \<open>
  C2 as stated fails: for a run folder of a known machine and one of an unknown machine
  the field is \<^verbatim>\<open>|NextSeq 500\<close>, whose first component is empty.
\<close>

theorem machine_field_empty_component_counterexample:
  "machine args_two_machines = None \<and>
   dict_get SEQUENCERS (machine_code folder_A) [] = ''NextSeq 500'' \<and>
   dict_get SEQUENCERS (machine_code folder_C) [] = [] \<and>
   create_default_config world_stats [] [] args_two_machines (Some ''GCF-2020-001'') None =
   ([''Multiple sequencing machines identified!''],
    Inr [(''project_id'', PStr ''GCF-2020-001''),
         (''read_geometry'', PInts [151, 151]), (''machine'', PStr ''|NextSeq 500''),
         (''samples'', PSamples [])]) \<and>
   split CHR ''|'' ''|NextSeq 500'' = [[], ''NextSeq 500'']"
proof -
  have m: "machine args_two_machines = None" by (simp add: args_two_machines_def)
  show ?thesis
    by (simp add: m config_two_machines machine_code_def basename_A basename_C
        SEQUENCERS_def dict_get_def)
qed

theorem machine_field_components_witness:
  "rearranges world_stats \<and> machine args_two_machines = None \<and>
   (\<exists>m. map_of [(''project_id'', PStr ''GCF-2020-001''),
         (''read_geometry'', PInts [151, 151]), (''machine'', PStr ''|NextSeq 500''),
         (''samples'', PSamples [])] ''machine'' = Some (PStr m) \<and>
     set (split CHR ''|'' m) = {[], ''NextSeq 500''} \<and>
     distinct (split CHR ''|'' m))"
proof -
  have m: "machine args_two_machines = None" by (simp add: args_two_machines_def)
  have rf: "runfolders args_two_machines = [folder_A, folder_C]"
    by (simp add: args_two_machines_def)
  have codes: "(\<lambda>p. dict_get SEQUENCERS (machine_code p) []) ` set [folder_A, folder_C]
      = {[], ''NextSeq 500''}"
    by (auto simp: machine_code_def basename_A basename_C SEQUENCERS_def dict_get_def)
  from machine_field_components [OF rearranges_world_stats m config_two_machines]
  show ?thesis
    unfolding rf codes using rearranges_world_stats m by simp
qed

end
